theory Spec2Isabelle
  imports Main
begin

section \<open>Data model\<close>

text \<open>
  Go \<open>error\<close> values that the pipeline creates or passes on. \<open>Fault\<close> stands for
  any error produced outside this package (transport, JSON codec, a middleware);
  the wrapping constructors are the \<open>fmt.Errorf("...: %w", err)\<close> calls of the source.
\<close>

datatype error =
    Fault string
  | ContextCanceled
  | ContextDeadlineExceeded
  | ErrBodyReadAfterClose
  | FailedAfterAttempts int error
  | ResponseMiddlewareError error
  | ReadBodyForMiddlewareError error

text \<open>
  A response body is an \<open>io.ReadCloser\<close>. Two implementations occur:
  the stream handed out by the transport (unread bytes, closed flag, and the fault a
  read runs into, if any), whose reads fail once it has been closed, and
  \<open>io.NopCloser(bytes.NewReader(bs))\<close>, whose \<open>Close\<close> does nothing.
\<close>

datatype body =
    NetBody string bool "error option"
  | NopCloser string

fun Close :: "body \<Rightarrow> body" where
  "Close (NetBody bs c f) = NetBody bs True f"
| "Close (NopCloser bs) = NopCloser bs"

text \<open>\<open>io.ReadAll\<close>: the bytes up to EOF, or the fault; the reader is drained.\<close>

fun ReadAll :: "body \<Rightarrow> (error + string) \<times> body" where
  "ReadAll (NetBody bs c f) =
     (if c then (Inl ErrBodyReadAfterClose, NetBody bs c f)
      else case f of
             Some e \<Rightarrow> (Inl e, NetBody [] c f)
           | None \<Rightarrow> (Inr bs, NetBody [] c f))"
| "ReadAll (NopCloser bs) = (Inr bs, NopCloser [])"

record response =
  StatusCode :: int
  Body :: body

section \<open>Retry engine (retry.go)\<close>

record RetryConfig =
  MaxAttempts :: int
  WaitTime :: int
  MaxWaitTime :: int
  ShouldRetry :: "(response option \<Rightarrow> error option \<Rightarrow> bool) option"

definition DefaultRetryWaitTime :: int where
  "DefaultRetryWaitTime = 200 * 1000000"

definition DefaultRetryMaxWaitTime :: int where
  "DefaultRetryMaxWaitTime = 10 * 1000000000"

definition DefaultRetryAttempts :: int where
  "DefaultRetryAttempts = 3"

definition StatusTooManyRequests :: int where
  "StatusTooManyRequests = 429"

fun defaultShouldRetry :: "response option \<Rightarrow> error option \<Rightarrow> bool" where
  "defaultShouldRetry resp (Some e) = True"
| "defaultShouldRetry None None = True"
| "defaultShouldRetry (Some r) None =
     (if StatusCode r \<ge> 500 then True
      else if StatusCode r = StatusTooManyRequests then True
      else False)"

definition wrap64 :: "int \<Rightarrow> int" where
  \<comment> \<open>the value an \<open>int64\<close> (\<open>time.Duration\<close>) holds after an arithmetic result \<open>x\<close>\<close>
  "wrap64 x = (x + 2 ^ 63) mod 2 ^ 64 - 2 ^ 63"

definition quo :: "int \<Rightarrow> int \<Rightarrow> int" where
  \<comment> \<open>Go's integer division, which truncates towards zero\<close>
  "quo a b = (if (a < 0) = (b < 0) then \<bar>a\<bar> div \<bar>b\<bar> else - (\<bar>a\<bar> div \<bar>b\<bar>))"

datatype panic = Panic string

definition Int63n :: "int \<Rightarrow> int \<Rightarrow> panic + int" where
  \<comment> \<open>\<open>rand.Int63n(n)\<close>: panics unless \<open>n > 0\<close>, else some value of \<open>[0, n)\<close>,
      here the one the raw random draw \<open>raw\<close> selects\<close>
  "Int63n raw n =
     (if n \<le> 0 then Inl (Panic ''invalid argument to Int63n'') else Inr (raw mod n))"

definition pow2Duration :: "int \<Rightarrow> int \<Rightarrow> int" where
  \<comment> \<open>\<open>time.Duration(math.Pow(2, float64(attempt)))\<close>. A power below one truncates
      to 0; powers up to \<open>2^62\<close> are exact; from \<open>2^63\<close> on the float does not fit an
      \<open>int64\<close> and Go leaves the converted value to the platform (\<open>oor\<close>).\<close>
  "pow2Duration oor attempt =
     (if attempt < 0 then 0 else if attempt \<le> 62 then 2 ^ nat attempt else oor)"

definition calculateBackoff :: "int \<Rightarrow> int \<Rightarrow> int \<Rightarrow> int \<Rightarrow> int \<Rightarrow> panic + int" where
  "calculateBackoff oor raw attempt waitTime maxWaitTime =
     (let backoff = wrap64 (waitTime * pow2Duration oor attempt);
          backoff = (if backoff > maxWaitTime then maxWaitTime else backoff);
          jitter = quo backoff 2
      in if jitter > 0
         then (case Int63n raw jitter of
                 Inl p \<Rightarrow> Inl p
               | Inr jitter \<Rightarrow> Inr (wrap64 (quo backoff 2 + jitter)))
         else Inr (wrap64 (quo backoff 2 + jitter)))"

definition applyRetryDefaults :: "RetryConfig \<Rightarrow> RetryConfig" where
  "applyRetryDefaults config =
     (let config = (if MaxAttempts config = 0
                    then config\<lparr>MaxAttempts := DefaultRetryAttempts\<rparr> else config);
          config = (if WaitTime config = 0
                    then config\<lparr>WaitTime := DefaultRetryWaitTime\<rparr> else config);
          config = (if MaxWaitTime config = 0
                    then config\<lparr>MaxWaitTime := DefaultRetryMaxWaitTime\<rparr> else config)
      in config)"

text \<open>
  What the retry engine meets outside itself, as a replayable trace: the answer of
  the \<open>n\<close>-th call of \<open>client.Do\<close>; for the wait after attempt \<open>k\<close>, how many
  nanoseconds after the wait begins \<open>ctx.Done()\<close> is closed and with which
  \<open>ctx.Err()\<close> (not positive: already closed; \<open>None\<close>: not before the timer), the
  raw random draw, and the choice Go's \<open>select\<close> makes when the timer and the
  context are ready together; and the platform's out-of-range float conversion.
\<close>

record world =
  send :: "nat \<Rightarrow> response option \<times> error option"
  cancel_after :: "nat \<Rightarrow> (int \<times> error) option"
  rand_raw :: "nat \<Rightarrow> int"
  tie_timer :: "nat \<Rightarrow> bool"
  float_oor :: int

definition select_timer_ctx :: "int \<Rightarrow> (int \<times> error) option \<Rightarrow> bool \<Rightarrow> error option" where
  \<comment> \<open>the \<open>select\<close> of \<open>waitWithBackoff\<close>: a timer of duration \<open>d\<close> (ready at once when
      \<open>d \<le> 0\<close>) against \<open>ctx.Done()\<close>; the channel ready first is received from\<close>
  "select_timer_ctx d cancel tie =
     (case cancel of
        None \<Rightarrow> None
      | Some (c, e) \<Rightarrow>
          (if max 0 c < max 0 d then Some e
           else if max 0 d < max 0 c then None
           else if tie then None else Some e))"

definition waitWithBackoff :: "world \<Rightarrow> int \<Rightarrow> RetryConfig \<Rightarrow> panic + error option" where
  "waitWithBackoff w attempt config =
     (case calculateBackoff (float_oor w) (rand_raw w (nat attempt)) attempt
             (WaitTime config) (MaxWaitTime config) of
        Inl p \<Rightarrow> Inl p
      | Inr backoff \<Rightarrow>
          Inr (select_timer_ctx backoff (cancel_after w (nat attempt))
                 (tie_timer w (nat attempt))))"

definition decideRetry :: "RetryConfig \<Rightarrow> response option \<Rightarrow> error option \<Rightarrow> bool" where
  \<comment> \<open>lines 41 to 44 of \<open>executeWithRetry\<close>\<close>
  "decideRetry config resp lastErr =
     (let shouldRetry = defaultShouldRetry resp lastErr
      in case ShouldRetry config of
           None \<Rightarrow> shouldRetry
         | Some f \<Rightarrow> f resp lastErr)"

definition closeBody :: "response option \<Rightarrow> response option" where
  \<comment> \<open>\<open>if resp != nil { _ = resp.Body.Close() }\<close>: the envelope stays the same object\<close>
  "closeBody resp =
     (case resp of None \<Rightarrow> None | Some r \<Rightarrow> Some (r\<lparr>Body := Close (Body r)\<rparr>))"

type_synonym retry_result = "response option \<times> error option \<times> nat"

definition afterLoop :: "RetryConfig \<Rightarrow> response option \<Rightarrow> error option \<Rightarrow> nat \<Rightarrow> retry_result" where
  \<comment> \<open>lines 61 to 64: the return after the last attempt\<close>
  "afterLoop config resp lastErr n =
     (case lastErr of
        Some e \<Rightarrow> (None, Some (FailedAfterAttempts (MaxAttempts config) e), n)
      | None \<Rightarrow> (resp, None, n))"

text \<open>
  The loop of \<open>executeWithRetry\<close>. \<open>n\<close> counts the calls of \<open>client.Do\<close> made so
  far and is returned with the result. The counter \<open>attempt\<close> stays between 0 and
  \<open>MaxAttempts\<close> while the body runs, so \<open>attempt++\<close> and \<open>MaxAttempts-1\<close> do not
  overflow there and are written on \<open>int\<close>.
\<close>

function retryLoop ::
  "world \<Rightarrow> RetryConfig \<Rightarrow> int \<Rightarrow> nat \<Rightarrow> response option \<Rightarrow> error option
     \<Rightarrow> panic + retry_result" where
  "retryLoop w config attempt n resp lastErr =
     (if attempt < MaxAttempts config then
        (let (resp, lastErr) = send w n in
         if \<not> decideRetry config resp lastErr then Inr (resp, lastErr, Suc n)
         else
           (let resp = closeBody resp in
            if attempt < MaxAttempts config - 1 then
              (case waitWithBackoff w attempt config of
                 Inl p \<Rightarrow> Inl p
               | Inr (Some err) \<Rightarrow> Inr (None, Some err, Suc n)
               | Inr None \<Rightarrow> retryLoop w config (attempt + 1) (Suc n) resp lastErr)
            else retryLoop w config (attempt + 1) (Suc n) resp lastErr))
      else Inr (afterLoop config resp lastErr n))"
  by pat_completeness auto
termination
  by (relation "measure (\<lambda>(w, config, attempt, n, resp, lastErr).
                  nat (MaxAttempts config - attempt))") auto

definition executeWithRetry :: "world \<Rightarrow> RetryConfig \<Rightarrow> panic + retry_result" where
  "executeWithRetry w config =
     (let config = applyRetryDefaults config
      in retryLoop w config 0 0 None None)"

section \<open>Request executor: address join and response middleware\<close>

definition HasSuffix :: "string \<Rightarrow> string \<Rightarrow> bool" where
  "HasSuffix s suffix =
     (length s \<ge> length suffix \<and> drop (length s - length suffix) s = suffix)"

definition HasPrefix :: "string \<Rightarrow> string \<Rightarrow> bool" where
  "HasPrefix s prefix = (length s \<ge> length prefix \<and> take (length prefix) s = prefix)"

definition TrimSuffix :: "string \<Rightarrow> string \<Rightarrow> string" where
  "TrimSuffix s suffix =
     (if HasSuffix s suffix then take (length s - length suffix) s else s)"

definition TrimPrefix :: "string \<Rightarrow> string \<Rightarrow> string" where
  "TrimPrefix s prefix = (if HasPrefix s prefix then drop (length prefix) s else s)"

definition joinURL :: "string \<Rightarrow> string \<Rightarrow> string" where
  "joinURL base p =
     (if p = [] then base
      else (let base = TrimSuffix base ''/'';
                p = TrimPrefix p ''/''
            in base @ ''/'' @ p))"

text \<open>
  A response middleware receives the envelope by pointer and may change it; the
  model returns the envelope as the step left it, and the step's error.
\<close>

type_synonym ResponseMiddleware = "response \<Rightarrow> response \<times> error option"





section \<open>Error classifier\<close>

datatype APIError = APIError (api_StatusCode: int) (api_Message: string) (api_Body: "string option")

record ErrorResponse =
  er_Error :: string
  er_Message :: string
  er_Detail :: string
  er_Code :: string

fun firstNonEmpty :: "string list \<Rightarrow> string" where
  "firstNonEmpty [] = []"
| "firstNonEmpty (s # strs) = (if s \<noteq> [] then s else firstNonEmpty strs)"

function decimal :: "nat \<Rightarrow> string" where
  "decimal n =
     (if n < 10 then [''0123456789'' ! n]
      else decimal (n div 10) @ [''0123456789'' ! (n mod 10)])"
  by pat_completeness auto
termination
  by (relation "measure id") auto

definition Itoa :: "int \<Rightarrow> string" where
  "Itoa i = (if i < 0 then ''-'' @ decimal (nat (- i)) else decimal (nat i))"

fun error_text :: "error \<Rightarrow> string" where
  "error_text (Fault s) = s"
| "error_text ContextCanceled = ''context canceled''"
| "error_text ContextDeadlineExceeded = ''context deadline exceeded''"
| "error_text ErrBodyReadAfterClose = ''http: read on closed response body''"
| "error_text (FailedAfterAttempts n e) =
     ''request failed after '' @ Itoa n @ '' attempts: '' @ error_text e"
| "error_text (ResponseMiddlewareError e) = ''response middleware error: '' @ error_text e"
| "error_text (ReadBodyForMiddlewareError e) =
     ''failed to read response body for middleware: '' @ error_text e"

text \<open>
  \<open>json.Unmarshal\<close> into an \<open>ErrorResponse\<close> belongs to the JSON codec, outside this
  package: it is the parameter \<open>unmarshal\<close>, giving the decoded struct or the
  codec's error.
\<close>

definition handleErrorResponse :: "(string \<Rightarrow> error + ErrorResponse) \<Rightarrow> response \<Rightarrow> APIError" where
  "handleErrorResponse unmarshal resp =
     (case fst (ReadAll (Body resp)) of
        Inl err \<Rightarrow>
          APIError (StatusCode resp) (''failed to read error response: '' @ error_text err) None
      | Inr body \<Rightarrow>
          (case unmarshal body of
             Inr errResp \<Rightarrow>
               (let msg = firstNonEmpty [er_Message errResp, er_Detail errResp, er_Error errResp]
                in if msg \<noteq> [] then APIError (StatusCode resp) msg (Some body)
                   else APIError (StatusCode resp) body (Some body))
           | Inl err \<Rightarrow> APIError (StatusCode resp) body (Some body)))"

section \<open>Client construction (client.go)\<close>

record Config =
  BaseURL :: string
  Timeout :: int
  MaxIdleConns :: int
  MaxIdleConnsPerHost :: int
  IdleConnTimeout :: int

record Transport =
  tr_MaxIdleConns :: int
  tr_MaxIdleConnsPerHost :: int
  tr_IdleConnTimeout :: int

definition Second :: int where
  "Second = 1000000000"

datatype Doer =
    HttpClient (hc_Timeout: int) (hc_Transport: Transport)
  | OtherDoer "nat \<Rightarrow> response option \<times> error option"

record HTTPClient =
  baseURL :: string
  httpClient :: Doer
  retryConfig :: "RetryConfig option"
  responseMiddleware :: "ResponseMiddleware list"

type_synonym Option = "HTTPClient \<Rightarrow> HTTPClient"

definition WithRetry :: "int \<Rightarrow> int \<Rightarrow> int \<Rightarrow> Option" where
  "WithRetry maxAttempts waitTime maxWaitTime c =
     c\<lparr>retryConfig := Some \<lparr>MaxAttempts = maxAttempts, WaitTime = waitTime,
                             MaxWaitTime = maxWaitTime, ShouldRetry = None\<rparr>\<rparr>"

definition WithResponseMiddleware :: "ResponseMiddleware \<Rightarrow> Option" where
  "WithResponseMiddleware mw c = c\<lparr>responseMiddleware := responseMiddleware c @ [mw]\<rparr>"

definition WithHTTPClient :: "Doer \<Rightarrow> Option" where
  "WithHTTPClient d c = c\<lparr>httpClient := d\<rparr>"

definition NewClient :: "Config option \<Rightarrow> Option list \<Rightarrow> HTTPClient" where
  "NewClient config opts =
     (let config = (case config of
                      None \<Rightarrow> \<lparr>BaseURL = [], Timeout = 30 * Second, MaxIdleConns = 0,
                                MaxIdleConnsPerHost = 0, IdleConnTimeout = 0\<rparr>
                    | Some c \<Rightarrow> c);
          transport = \<lparr>tr_MaxIdleConns = MaxIdleConns config,
                       tr_MaxIdleConnsPerHost = MaxIdleConnsPerHost config,
                       tr_IdleConnTimeout = IdleConnTimeout config\<rparr>;
          transport = (if tr_MaxIdleConnsPerHost transport = 0
                       then transport\<lparr>tr_MaxIdleConnsPerHost := 100\<rparr> else transport);
          transport = (if tr_IdleConnTimeout transport = 0
                       then transport\<lparr>tr_IdleConnTimeout := 90 * Second\<rparr> else transport);
          client = \<lparr>baseURL = BaseURL config,
                    httpClient = HttpClient (Timeout config) transport,
                    retryConfig = None, responseMiddleware = []\<rparr>
      in foldl (\<lambda>client opt. opt client) client opts)"

section \<open>Example inputs\<close>

definition busy :: response where
  "busy = \<lparr>StatusCode = 503, Body = NetBody ''busy'' False None\<rparr>"

definition always503 :: world where
  \<comment> \<open>a server that always answers 503, and a context that is never cancelled\<close>
  "always503 = \<lparr>send = (\<lambda>n. (Some busy, None)), cancel_after = (\<lambda>k. None),
                 rand_raw = (\<lambda>k. 0), tie_timer = (\<lambda>k. False), float_oor = 0\<rparr>"

definition alwaysRefused :: world where
  \<comment> \<open>every send ends in a transport fault\<close>
  "alwaysRefused = always503\<lparr>send := (\<lambda>n. (None, Some (Fault ''connection refused'')))\<rparr>"

definition preCancelled :: world where
  \<comment> \<open>the same server, with a context cancelled before the call\<close>
  "preCancelled = always503\<lparr>cancel_after := (\<lambda>k. Some (0, ContextCanceled))\<rparr>"

definition preCancelledTimerFirst :: world where
  \<comment> \<open>as before; where timer and context are ready together, \<open>select\<close> takes the timer\<close>
  "preCancelledTimerFirst = preCancelled\<lparr>tie_timer := (\<lambda>k. True)\<rparr>"

definition retry3 :: RetryConfig where
  "retry3 = \<lparr>MaxAttempts = 3, WaitTime = 200000000, MaxWaitTime = 10000000000,
             ShouldRetry = None\<rparr>"

definition retryNegative :: RetryConfig where
  "retryNegative = \<lparr>MaxAttempts = - 2, WaitTime = 0, MaxWaitTime = 0, ShouldRetry = None\<rparr>"

definition retry1ns :: RetryConfig where
  \<comment> \<open>a base wait of one nanosecond: the first backoff is 0\<close>
  "retry1ns = \<lparr>MaxAttempts = 3, WaitTime = 1, MaxWaitTime = 10000000000, ShouldRetry = None\<rparr>"

definition bareConfig :: Config where
  "bareConfig = \<lparr>BaseURL = ''https://api.example.com'', Timeout = 30 * Second,
                 MaxIdleConns = 0, MaxIdleConnsPerHost = 0, IdleConnTimeout = 0\<rparr>"

definition tunedConfig :: Config where
  "tunedConfig = \<lparr>BaseURL = ''https://api.example.com'', Timeout = 30 * Second,
                 MaxIdleConns = 10, MaxIdleConnsPerHost = 5, IdleConnTimeout = 60 * Second\<rparr>"

definition sampleDecoder :: "string \<Rightarrow> error + ErrorResponse" where
  \<comment> \<open>the codec's answers on three bodies\<close>
  \<open>sampleDecoder bs =
     (if bs = ''{"error":"e","message":"m"}''
      then Inr \<lparr>er_Error = ''e'', er_Message = ''m'', er_Detail = [], er_Code = []\<rparr>
      else if bs = ''{"error":"e"}''
      then Inr \<lparr>er_Error = ''e'', er_Message = [], er_Detail = [], er_Code = []\<rparr>
      else Inl (Fault ''invalid character''))\<close>

section \<open>Default retry predicate\<close>

text \<open>
  C3. The default retry predicate answers true exactly when a transport fault
  occurred, or no response envelope was produced, or the status code is at least
  500, or the status code is 429. With a response and no fault it is false for
  every status below 500 other than 429, in particular for 200 and 404.
\<close>

theorem defaultShouldRetry_iff:
  "defaultShouldRetry resp err =
     (err \<noteq> None \<or> resp = None \<or>
      (\<exists>r. resp = Some r \<and> (StatusCode r \<ge> 500 \<or> StatusCode r = 429)))
   \<and> (\<forall>r. StatusCode r < 500 \<and> StatusCode r \<noteq> 429 \<longrightarrow>
          \<not> defaultShouldRetry (Some r) None)
   \<and> \<not> defaultShouldRetry (Some \<lparr>StatusCode = 200, Body = b\<rparr>) None
   \<and> \<not> defaultShouldRetry (Some \<lparr>StatusCode = 404, Body = b\<rparr>) None"
  by (cases resp; cases err; simp add: StatusTooManyRequests_def)

theorem defaultShouldRetry_iff_witness:
  "defaultShouldRetry (Some \<lparr>StatusCode = 503, Body = NopCloser []\<rparr>) None
   \<and> defaultShouldRetry None (Some (Fault ''dial tcp: connection refused''))
   \<and> \<not> defaultShouldRetry (Some \<lparr>StatusCode = 201, Body = NopCloser []\<rparr>) None"
  using defaultShouldRetry_iff
          [of "Some \<lparr>StatusCode = 503, Body = NopCloser []\<rparr>" None]
        defaultShouldRetry_iff
          [of None "Some (Fault ''dial tcp: connection refused'')"]
        defaultShouldRetry_iff
          [of "Some \<lparr>StatusCode = 201, Body = NopCloser []\<rparr>" None]
  by simp

section \<open>The retry loop, step by step\<close>

lemma calculateBackoff_no_panic:
  "\<exists>d. calculateBackoff oor raw attempt waitTime maxWaitTime = Inr d"
  by (simp add: calculateBackoff_def Int63n_def Let_def)

lemma waitWithBackoff_no_panic: "\<exists>r. waitWithBackoff w attempt config = Inr r"
proof -
  obtain d where "calculateBackoff (float_oor w) (rand_raw w (nat attempt)) attempt
      (WaitTime config) (MaxWaitTime config) = Inr d"
    using calculateBackoff_no_panic by blast
  then show ?thesis by (simp add: waitWithBackoff_def)
qed

lemma retryLoop_exit:
  "\<not> attempt < MaxAttempts config \<Longrightarrow>
     retryLoop w config attempt n resp lastErr = Inr (afterLoop config resp lastErr n)"
  by (subst retryLoop.simps) simp

lemma retryLoop_stop:
  "attempt < MaxAttempts config \<Longrightarrow> \<not> decideRetry config (fst (send w n)) (snd (send w n)) \<Longrightarrow>
     retryLoop w config attempt n resp lastErr = Inr (fst (send w n), snd (send w n), Suc n)"
  by (subst retryLoop.simps) (simp add: case_prod_beta)

lemma retryLoop_wait:
  "attempt < MaxAttempts config - 1 \<Longrightarrow> decideRetry config (fst (send w n)) (snd (send w n)) \<Longrightarrow>
   waitWithBackoff w attempt config = Inr None \<Longrightarrow>
     retryLoop w config attempt n resp lastErr =
     retryLoop w config (attempt + 1) (Suc n) (closeBody (fst (send w n))) (snd (send w n))"
  by (subst retryLoop.simps) (simp add: case_prod_beta Let_def)

lemma retryLoop_cancel:
  "attempt < MaxAttempts config - 1 \<Longrightarrow> decideRetry config (fst (send w n)) (snd (send w n)) \<Longrightarrow>
   waitWithBackoff w attempt config = Inr (Some err) \<Longrightarrow>
     retryLoop w config attempt n resp lastErr = Inr (None, Some err, Suc n)"
  by (subst retryLoop.simps) (simp add: case_prod_beta Let_def)

lemma retryLoop_last:
  "attempt = MaxAttempts config - 1 \<Longrightarrow> decideRetry config (fst (send w n)) (snd (send w n)) \<Longrightarrow>
     retryLoop w config attempt n resp lastErr =
     Inr (afterLoop config (closeBody (fst (send w n))) (snd (send w n)) (Suc n))"
  by (subst retryLoop.simps) (simp add: case_prod_beta Let_def retryLoop_exit)

text \<open>\<open>k\<close> retried attempts in a row, each followed by a completed wait.\<close>

lemma retryLoop_prefix:
  "int k < MaxAttempts config \<Longrightarrow>
   (\<forall>j<k. decideRetry config (fst (send w j)) (snd (send w j))) \<Longrightarrow>
   (\<forall>j<k. waitWithBackoff w (int j) config = Inr None) \<Longrightarrow>
     retryLoop w config 0 0 None None =
     retryLoop w config (int k) k
       (if k = 0 then None else closeBody (fst (send w (k - 1))))
       (if k = 0 then None else snd (send w (k - 1)))"
proof (induction k)
  case 0
  then show ?case by simp
next
  case (Suc k)
  have "retryLoop w config 0 0 None None =
     retryLoop w config (int k) k
       (if k = 0 then None else closeBody (fst (send w (k - 1))))
       (if k = 0 then None else snd (send w (k - 1)))"
    using Suc by simp
  also have "\<dots> = retryLoop w config (int k + 1) (Suc k) (closeBody (fst (send w k))) (snd (send w k))"
    using Suc.prems by (intro retryLoop_wait) auto
  finally show ?case by (simp add: add.commute)
qed

lemma retryLoop_exhausted:
  assumes "0 < MaxAttempts config" and "N = nat (MaxAttempts config)"
    and "\<forall>j<N. decideRetry config (fst (send w j)) (snd (send w j))"
    and "\<forall>j. Suc j < N \<longrightarrow> waitWithBackoff w (int j) config = Inr None"
  shows "retryLoop w config 0 0 None None =
         Inr (afterLoop config (closeBody (fst (send w (N - 1)))) (snd (send w (N - 1))) N)"
proof -
  have "0 < N" using assms(1,2) by simp
  then obtain k where k: "N = Suc k" using gr0_implies_Suc by blast
  have "retryLoop w config 0 0 None None =
     retryLoop w config (int k) k
       (if k = 0 then None else closeBody (fst (send w (k - 1))))
       (if k = 0 then None else snd (send w (k - 1)))"
    using assms k by (intro retryLoop_prefix) auto
  also have "\<dots> = Inr (afterLoop config (closeBody (fst (send w k))) (snd (send w k)) (Suc k))"
    using assms k by (intro retryLoop_last) auto
  finally show ?thesis using k by simp
qed


lemma waitWithBackoff_not_cancelled:
  "cancel_after w (nat attempt) = None \<Longrightarrow> waitWithBackoff w attempt config = Inr None"
  using calculateBackoff_no_panic
          [of "float_oor w" "rand_raw w (nat attempt)" attempt "WaitTime config" "MaxWaitTime config"]
  by (auto simp: waitWithBackoff_def select_timer_ctx_def)

lemma waitWithBackoff_completes:
  "(\<forall>e. waitWithBackoff w attempt config \<noteq> Inr (Some e)) \<Longrightarrow>
     waitWithBackoff w attempt config = Inr None"
  using waitWithBackoff_no_panic [of w attempt config] by (metis option.exhaust)

lemma executeWithRetry_exhausted:
  assumes "0 < MaxAttempts (applyRetryDefaults config)"
    and "N = nat (MaxAttempts (applyRetryDefaults config))"
    and "\<forall>j<N. decideRetry (applyRetryDefaults config) (fst (send w j)) (snd (send w j))"
    and "\<forall>j e. Suc j < N \<longrightarrow> waitWithBackoff w (int j) (applyRetryDefaults config) \<noteq> Inr (Some e)"
  shows "executeWithRetry w config =
         Inr (afterLoop (applyRetryDefaults config)
                (closeBody (fst (send w (N - 1)))) (snd (send w (N - 1))) N)"
proof -
  have "\<forall>j. Suc j < N \<longrightarrow> waitWithBackoff w (int j) (applyRetryDefaults config) = Inr None"
    using assms(4) waitWithBackoff_completes by blast
  then show ?thesis
    unfolding executeWithRetry_def Let_def
    using assms(1,2,3) by (intro retryLoop_exhausted) auto
qed

lemma retry3_defaults: "applyRetryDefaults retry3 = retry3"
  by (simp add: applyRetryDefaults_def retry3_def)

section \<open>Retry exhaustion\<close>

text \<open>
  C1, amended. Let the effective attempt budget (after defaults) be at least 1,
  let every attempt's result be judged retryable, and let no between-attempt wait be
  aborted by the cancellation signal. Then \<open>executeWithRetry\<close> calls the underlying
  send exactly \<open>MaxAttempts\<close> times; if the last attempt produced a transport fault
  it returns no envelope and that fault wrapped with the attempt count; if the last
  attempt produced no fault it returns that attempt's envelope (present exactly when
  the attempt produced one, with that attempt's status code) and no error, synthetic
  or other.
\<close>

theorem executeWithRetry_exhausts_attempts:
  assumes "0 < MaxAttempts (applyRetryDefaults config)"
    and "N = nat (MaxAttempts (applyRetryDefaults config))"
    and "\<forall>j<N. decideRetry (applyRetryDefaults config) (fst (send w j)) (snd (send w j))"
    and "\<forall>j e. Suc j < N \<longrightarrow> waitWithBackoff w (int j) (applyRetryDefaults config) \<noteq> Inr (Some e)"
  shows "case snd (send w (N - 1)) of
           Some e \<Rightarrow>
             executeWithRetry w config =
               Inr (None, Some (FailedAfterAttempts (MaxAttempts (applyRetryDefaults config)) e), N)
         | None \<Rightarrow>
             (\<exists>resp. executeWithRetry w config = Inr (resp, None, N)
                \<and> map_option StatusCode resp = map_option StatusCode (fst (send w (N - 1))))"
proof (cases "snd (send w (N - 1))")
  case None
  have "map_option StatusCode (closeBody (fst (send w (N - 1)))) =
          map_option StatusCode (fst (send w (N - 1)))"
    by (cases "fst (send w (N - 1))") (simp_all add: closeBody_def)
  then show ?thesis
    using executeWithRetry_exhausted [OF assms] None by (simp add: afterLoop_def)
next
  case (Some e)
  then show ?thesis
    using executeWithRetry_exhausted [OF assms] by (simp add: afterLoop_def)
qed

text \<open>
  Three attempts against a server that always answers 503, and against a transport
  that always fails.
\<close>

theorem executeWithRetry_exhausts_attempts_witness:
  "(\<exists>resp. executeWithRetry always503 retry3 = Inr (resp, None, 3)
      \<and> map_option StatusCode resp = Some 503)
   \<and> executeWithRetry alwaysRefused retry3 =
     Inr (None, Some (FailedAfterAttempts 3 (Fault ''connection refused'')), 3)"
proof -
  have m: "MaxAttempts retry3 = 3" by (simp add: retry3_def)
  have a: "\<forall>j<3. decideRetry retry3 (fst (send always503 j)) (snd (send always503 j))"
    by (simp add: decideRetry_def retry3_def always503_def busy_def)
  have b: "\<forall>j<3. decideRetry retry3 (fst (send alwaysRefused j)) (snd (send alwaysRefused j))"
    by (simp add: decideRetry_def retry3_def alwaysRefused_def)
  have c: "\<forall>j e. Suc j < 3 \<longrightarrow> waitWithBackoff always503 (int j) retry3 \<noteq> Inr (Some e)"
    by (simp add: waitWithBackoff_not_cancelled always503_def)
  have d: "\<forall>j e. Suc j < 3 \<longrightarrow> waitWithBackoff alwaysRefused (int j) retry3 \<noteq> Inr (Some e)"
    by (simp add: waitWithBackoff_not_cancelled always503_def alwaysRefused_def)
  show ?thesis
    using executeWithRetry_exhausts_attempts [of retry3 3 always503]
          executeWithRetry_exhausts_attempts [of retry3 3 alwaysRefused] a b c d m
    by (simp add: retry3_defaults always503_def alwaysRefused_def busy_def)
qed

text \<open>
  Without the condition on the waits the statement fails: every answer is a
  retryable 503 and the budget is 3, but the context is already cancelled, so the
  first wait aborts and a single send has been made.
\<close>

theorem executeWithRetry_cancelled_counterexample:
  "range (send preCancelled) = {(Some busy, None)}
   \<and> decideRetry (applyRetryDefaults retry3) (Some busy) None
   \<and> MaxAttempts (applyRetryDefaults retry3) = 3
   \<and> executeWithRetry preCancelled retry3 = Inr (None, Some ContextCanceled, 1)"
proof -
  have "range (send preCancelled) = {(Some busy, None)}"
    by (auto simp: preCancelled_def always503_def)
  moreover have "decideRetry (applyRetryDefaults retry3) (Some busy) None"
    unfolding retry3_defaults by (simp add: decideRetry_def retry3_def busy_def)
  moreover have "MaxAttempts (applyRetryDefaults retry3) = 3"
    unfolding retry3_defaults by (simp add: retry3_def)
  moreover have "executeWithRetry preCancelled retry3 = Inr (None, Some ContextCanceled, 1)"
    by code_simp
  ultimately show ?thesis by simp
qed

section \<open>Cancellation during backoff\<close>

text \<open>
  C7, amended. If the cancellation signal has already fired when a between-attempt
  wait begins and the backoff computed for that wait is positive, the wait aborts at
  once with the cancellation fault, and \<open>executeWithRetry\<close> returns that fault
  without starting any further send attempt: after the \<open>k + 1\<close> attempts made so far
  it returns no envelope, \<open>ctx.Err()\<close>, and the send count \<open>k + 1\<close>.
\<close>

theorem pre_cancelled_wait_aborts:
  assumes "int k < MaxAttempts (applyRetryDefaults config) - 1"
    and "\<forall>j\<le>k. decideRetry (applyRetryDefaults config) (fst (send w j)) (snd (send w j))"
    and "\<forall>j<k. waitWithBackoff w (int j) (applyRetryDefaults config) = Inr None"
    and "cancel_after w k = Some (c, e)" and "c \<le> 0"
    and "calculateBackoff (float_oor w) (rand_raw w k) (int k)
           (WaitTime (applyRetryDefaults config)) (MaxWaitTime (applyRetryDefaults config)) = Inr d"
    and "0 < d"
  shows "waitWithBackoff w (int k) (applyRetryDefaults config) = Inr (Some e)
         \<and> executeWithRetry w config = Inr (None, Some e, Suc k)"
proof -
  let ?c = "applyRetryDefaults config"
  have wait: "waitWithBackoff w (int k) ?c = Inr (Some e)"
    using assms(4-7) by (simp add: waitWithBackoff_def select_timer_ctx_def)
  have "retryLoop w ?c 0 0 None None =
     retryLoop w ?c (int k) k
       (if k = 0 then None else closeBody (fst (send w (k - 1))))
       (if k = 0 then None else snd (send w (k - 1)))"
    using assms(1-3) by (intro retryLoop_prefix) auto
  also have "\<dots> = Inr (None, Some e, Suc k)"
    using assms(1,2) wait by (intro retryLoop_cancel) auto
  finally show ?thesis using wait by (simp add: executeWithRetry_def)
qed

text \<open>The default policy against the always-503 server, context cancelled beforehand.\<close>

theorem pre_cancelled_wait_aborts_witness:
  "cancel_after preCancelled 0 = Some (0, ContextCanceled)
   \<and> calculateBackoff (float_oor preCancelled) (rand_raw preCancelled 0) 0
        (WaitTime retry3) (MaxWaitTime retry3) = Inr 100000000
   \<and> waitWithBackoff preCancelled 0 retry3 = Inr (Some ContextCanceled)
   \<and> executeWithRetry preCancelled retry3 = Inr (None, Some ContextCanceled, 1)"
proof -
  have c: "cancel_after preCancelled 0 = Some (0, ContextCanceled)"
    by (simp add: preCancelled_def always503_def)
  have b: "calculateBackoff (float_oor preCancelled) (rand_raw preCancelled 0) (int 0)
        (WaitTime retry3) (MaxWaitTime retry3) = Inr 100000000"
    by code_simp
  have a: "int 0 < MaxAttempts retry3 - 1" by (simp add: retry3_def)
  have r: "\<forall>j\<le>0. decideRetry retry3 (fst (send preCancelled j)) (snd (send preCancelled j))"
    by (simp add: decideRetry_def retry3_def preCancelled_def always503_def busy_def)
  show ?thesis
    using pre_cancelled_wait_aborts [of 0 retry3 preCancelled 0 ContextCanceled 100000000]
      a r b c
    by (simp add: retry3_defaults)
qed

text \<open>
  With a backoff of 0 the timer is ready as soon as it is created, so it and
  \<open>ctx.Done()\<close> are both ready when \<open>select\<close> runs, and \<open>select\<close> may take the
  timer: the wait then completes and a second send is made although the context was
  cancelled beforehand. A base wait of 1ns gives such a backoff on the first wait.
\<close>

theorem zero_backoff_race_counterexample:
  "cancel_after preCancelledTimerFirst 0 = Some (0, ContextCanceled)
   \<and> waitWithBackoff preCancelledTimerFirst 0 (applyRetryDefaults retry1ns) = Inr None
   \<and> executeWithRetry preCancelledTimerFirst retry1ns = Inr (None, Some ContextCanceled, 2)"
proof -
  have "cancel_after preCancelledTimerFirst 0 = Some (0, ContextCanceled)"
    by (simp add: preCancelledTimerFirst_def preCancelled_def always503_def)
  moreover have "waitWithBackoff preCancelledTimerFirst 0 (applyRetryDefaults retry1ns) = Inr None"
    by code_simp
  moreover have "executeWithRetry preCancelledTimerFirst retry1ns = Inr (None, Some ContextCanceled, 2)"
    by code_simp
  ultimately show ?thesis by simp
qed

section \<open>The envelope returned after exhaustion\<close>

text \<open>
  C9. When \<open>executeWithRetry\<close> exhausts all attempts and the final attempt
  produced a response envelope judged retryable (and no fault), the envelope it
  returns is that envelope after \<open>Body.Close()\<close>: the loop closes the body on every
  retryable attempt, the last one included. For a body handed out by the transport
  every later read fails, so the Error Classifier can only report the read failure:
  status code kept, no body bytes.
\<close>

theorem exhausted_envelope_body_closed:
  assumes "0 < MaxAttempts (applyRetryDefaults config)"
    and "N = nat (MaxAttempts (applyRetryDefaults config))"
    and "\<forall>j<N. decideRetry (applyRetryDefaults config) (fst (send w j)) (snd (send w j))"
    and "\<forall>j e. Suc j < N \<longrightarrow> waitWithBackoff w (int j) (applyRetryDefaults config) \<noteq> Inr (Some e)"
    and "send w (N - 1) = (Some r, None)"
  shows "executeWithRetry w config = Inr (Some (r\<lparr>Body := Close (Body r)\<rparr>), None, N)
         \<and> (\<forall>bs c f. Body r = NetBody bs c f \<longrightarrow>
               fst (ReadAll (Close (Body r))) = Inl ErrBodyReadAfterClose
               \<and> handleErrorResponse unmarshal (r\<lparr>Body := Close (Body r)\<rparr>) =
                   APIError (StatusCode r)
                     ''failed to read error response: http: read on closed response body'' None)"
proof -
  have "executeWithRetry w config = Inr (Some (r\<lparr>Body := Close (Body r)\<rparr>), None, N)"
    using executeWithRetry_exhausted [OF assms(1-4)] assms(5)
    by (simp add: afterLoop_def closeBody_def)
  moreover have "fst (ReadAll (Close (Body r))) = Inl ErrBodyReadAfterClose
      \<and> handleErrorResponse unmarshal (r\<lparr>Body := Close (Body r)\<rparr>) =
          APIError (StatusCode r)
            ''failed to read error response: http: read on closed response body'' None"
    if "Body r = NetBody bs c f" for bs c f
    using that by (simp add: handleErrorResponse_def)
  ultimately show ?thesis by blast
qed

theorem exhausted_envelope_body_closed_witness:
  "send always503 2 = (Some busy, None)
   \<and> executeWithRetry always503 retry3 =
       Inr (Some \<lparr>StatusCode = 503, Body = NetBody ''busy'' True None\<rparr>, None, 3)
   \<and> fst (ReadAll (NetBody ''busy'' True None)) = Inl ErrBodyReadAfterClose
   \<and> handleErrorResponse sampleDecoder \<lparr>StatusCode = 503, Body = NetBody ''busy'' True None\<rparr> =
       APIError 503 ''failed to read error response: http: read on closed response body'' None"
proof -
  have m: "MaxAttempts retry3 = 3" by (simp add: retry3_def)
  have a: "\<forall>j<3. decideRetry retry3 (fst (send always503 j)) (snd (send always503 j))"
    by (simp add: decideRetry_def retry3_def always503_def busy_def)
  have c: "\<forall>j e. Suc j < 3 \<longrightarrow> waitWithBackoff always503 (int j) retry3 \<noteq> Inr (Some e)"
    by (simp add: waitWithBackoff_not_cancelled always503_def)
  have s: "send always503 2 = (Some busy, None)" by (simp add: always503_def)
  show ?thesis
    using exhausted_envelope_body_closed [of retry3 3 always503 busy sampleDecoder] a c m s
    by (auto simp: retry3_defaults busy_def)
qed

section \<open>Negative attempt budget\<close>

text \<open>
  C10. \<open>applyRetryDefaults\<close> replaces only the exact value 0 of \<open>MaxAttempts\<close> by 3.
  A negative \<open>MaxAttempts\<close> is left unchanged, and \<open>executeWithRetry\<close> then makes no
  send and returns neither an envelope nor a fault.
\<close>

theorem negative_MaxAttempts_sends_nothing:
  "MaxAttempts (applyRetryDefaults config) =
     (if MaxAttempts config = 0 then 3 else MaxAttempts config)
   \<and> (MaxAttempts config < 0 \<longrightarrow>
        MaxAttempts (applyRetryDefaults config) = MaxAttempts config
        \<and> executeWithRetry w config = Inr (None, None, 0))"
proof -
  have m: "MaxAttempts (applyRetryDefaults config) =
     (if MaxAttempts config = 0 then 3 else MaxAttempts config)"
    by (simp add: applyRetryDefaults_def Let_def DefaultRetryAttempts_def)
  have "executeWithRetry w config = Inr (None, None, 0)" if "MaxAttempts config < 0"
    unfolding executeWithRetry_def Let_def
    using that m by (subst retryLoop_exit) (auto simp: afterLoop_def)
  then show ?thesis using m by auto
qed

theorem negative_MaxAttempts_sends_nothing_witness:
  "MaxAttempts retryNegative < 0
   \<and> MaxAttempts (applyRetryDefaults retryNegative) = - 2
   \<and> executeWithRetry always503 retryNegative = Inr (None, None, 0)"
  using negative_MaxAttempts_sends_nothing [of retryNegative always503]
  by (simp add: retryNegative_def)

section \<open>Backoff calculator\<close>

text \<open>
  Where the product \<open>waitTime * 2^attempt\<close> fits an \<open>int64\<close> (and base wait and cap
  are not negative), the wait lies in the upper half of the capped exponential value
  \<open>b\<close>: at least \<open>b div 2\<close>, below \<open>b\<close> when \<open>b\<close> is positive, exactly 0 when \<open>b\<close> is
  0, never negative and never above the cap; and \<open>rand.Int63n\<close> is never called with
  an argument it panics on.
\<close>

lemma wrap64_in_range: "- (2 ^ 63) \<le> x \<Longrightarrow> x < 2 ^ 63 \<Longrightarrow> wrap64 x = x"
  by (simp add: wrap64_def)

lemma quo_nonneg: "0 \<le> a \<Longrightarrow> quo a 2 = a div 2"
  by (simp add: quo_def)

lemma calculateBackoff_steps:
  assumes "wrap64 (waitTime * pow2Duration oor attempt) = x"
    and "(if x > maxWaitTime then maxWaitTime else x) = b"
    and "quo b 2 = h"
  shows "calculateBackoff oor raw attempt waitTime maxWaitTime =
           (if h > 0 then (case Int63n raw h of Inl p \<Rightarrow> Inl p
                           | Inr jitter \<Rightarrow> Inr (wrap64 (h + jitter)))
            else Inr (wrap64 (h + h)))"
  using assms by (auto simp: calculateBackoff_def Let_def split: sum.splits)

lemma calculateBackoff_in_range:
  assumes "0 \<le> attempt" and "attempt \<le> 62"
    and "0 \<le> waitTime" and "0 \<le> maxWaitTime" and "maxWaitTime < 2 ^ 63"
    and "waitTime * 2 ^ nat attempt < 2 ^ 63"
    and "b = min maxWaitTime (waitTime * 2 ^ nat attempt)"
  shows "\<exists>r. calculateBackoff oor raw attempt waitTime maxWaitTime = Inr r
           \<and> b div 2 \<le> r \<and> (0 < b \<longrightarrow> r < b) \<and> (b = 0 \<longrightarrow> r = 0)
           \<and> 0 \<le> r \<and> r \<le> maxWaitTime"
proof -
  have p: "pow2Duration oor attempt = 2 ^ nat attempt"
    using assms(1,2) by (simp add: pow2Duration_def)
  have "0 \<le> waitTime * 2 ^ nat attempt" using assms(3) by simp
  then have w: "wrap64 (waitTime * pow2Duration oor attempt) = waitTime * 2 ^ nat attempt"
    using assms(6) p by (simp add: wrap64_in_range)
  have b0: "0 \<le> b" and bm: "b \<le> maxWaitTime" using assms(3,4,7) by auto
  have capped: "(if waitTime * 2 ^ nat attempt > maxWaitTime then maxWaitTime
                 else waitTime * 2 ^ nat attempt) = b"
    using assms(7) by auto
  have q: "quo b 2 = b div 2" using b0 by (rule quo_nonneg)
  show ?thesis
  proof (cases "0 < b div 2")
    case True
    let ?j = "raw mod (b div 2)"
    have j: "0 \<le> ?j" "?j < b div 2" using True by simp_all
    have "b div 2 + ?j < 2 ^ 63" using j bm assms(5) by linarith
    then have "wrap64 (b div 2 + ?j) = b div 2 + ?j"
      using j True by (intro wrap64_in_range) linarith+
    then have "calculateBackoff oor raw attempt waitTime maxWaitTime = Inr (b div 2 + ?j)"
      using True by (simp add: calculateBackoff_steps [OF w capped q] Int63n_def)
    moreover have "b div 2 + ?j < b" using j by linarith
    ultimately show ?thesis using j b0 bm True by auto
  next
    case False
    moreover have "0 \<le> b div 2" using b0 by simp
    ultimately have z: "b div 2 = 0" by linarith
    then have "calculateBackoff oor raw attempt waitTime maxWaitTime = Inr 0"
      by (simp add: calculateBackoff_steps [OF w capped q] wrap64_in_range)
    moreover have "b = 0 \<or> b = 1" using z b0 by linarith
    ultimately show ?thesis using z assms(4) by auto
  qed
qed

text \<open>
  C2. The specification gives, for every attempt index \<open>i \<ge> 0\<close>, a wait in the
  upper half of \<open>min(cap, base * 2^i)\<close>, never negative and never above the cap. The
  code multiplies before it caps, in \<open>int64\<close>: with the default base wait (200ms) and cap
  (10s), at attempt 36 the product \<open>200000000 * 2^36\<close> wraps to a negative duration,
  the comparison with the cap lets it through, and the wait returned is negative,
  whatever the random draw.
\<close>

theorem calculateBackoff_overflow_negative:
  "calculateBackoff oor raw 36 DefaultRetryWaitTime DefaultRetryMaxWaitTime
     = Inr (- 4702848726509551616)"
  by (simp add: calculateBackoff_def pow2Duration_def wrap64_def quo_def Let_def
        DefaultRetryWaitTime_def DefaultRetryMaxWaitTime_def)

section \<open>Joining base address and path\<close>

text \<open>
  C5. The specification (and the comment on \<open>joinURL\<close>) asks for exactly one
  separating slash at the join point for every base and path. \<open>TrimSuffix\<close> and \<open>TrimPrefix\<close> remove a single slash, so a base
  ending in two slashes (or a path starting with two) is joined with two slashes.
\<close>

theorem joinURL_double_slash:
  "joinURL ''https://api.example.com//'' ''/v1/users'' = ''https://api.example.com//v1/users''"
  by (simp add: joinURL_def TrimSuffix_def TrimPrefix_def HasSuffix_def HasPrefix_def)

text \<open>
  An empty path returns the base unchanged; and when the base does not end in two
  slashes nor the path begin with two, the joined address is a part of the base that
  does not end in a slash, one slash, and a part of the path that does not begin
  with one.
\<close>

lemma joinURL_empty_path: "joinURL base [] = base"
  by (simp add: joinURL_def)

lemma TrimSuffix_slash: "TrimSuffix (xs @ ''/'') ''/'' = xs"
  by (simp add: TrimSuffix_def HasSuffix_def)

lemma TrimSuffix_none: "\<not> HasSuffix base ''/'' \<Longrightarrow> TrimSuffix base ''/'' = base"
  by (simp add: TrimSuffix_def)

lemma TrimPrefix_slash: "TrimPrefix (CHR ''/'' # xs) ''/'' = xs"
  by (simp add: TrimPrefix_def HasPrefix_def)

lemma TrimPrefix_none: "\<not> HasPrefix p ''/'' \<Longrightarrow> TrimPrefix p ''/'' = p"
  by (simp add: TrimPrefix_def)

lemma joinURL_one_slash:
  assumes "p \<noteq> []" and "\<not> HasSuffix base ''//''" and "\<not> HasPrefix p ''//''"
  shows "\<exists>b' p'. joinURL base p = b' @ ''/'' @ p'
           \<and> \<not> HasSuffix b' ''/'' \<and> \<not> HasPrefix p' ''/''
           \<and> (base = b' \<or> base = b' @ ''/'') \<and> (p = p' \<or> p = ''/'' @ p')"
proof -
  obtain b' where b: "TrimSuffix base ''/'' = b'" "\<not> HasSuffix b' ''/''" "base = b' \<or> base = b' @ ''/''"
  proof (cases "HasSuffix base ''/''")
    case True
    then obtain xs where xs: "base = xs @ ''/''"
      by (cases base rule: rev_cases) (auto simp: HasSuffix_def)
    have "\<not> HasSuffix xs ''/''"
      using assms(2) xs by (cases xs rule: rev_cases) (auto simp: HasSuffix_def)
    then show ?thesis using that xs TrimSuffix_slash by blast
  next
    case False
    then show ?thesis using that TrimSuffix_none by blast
  qed
  obtain p' where p: "TrimPrefix p ''/'' = p'" "\<not> HasPrefix p' ''/''" "p = p' \<or> p = ''/'' @ p'"
  proof (cases "HasPrefix p ''/''")
    case True
    then obtain xs where xs: "p = CHR ''/'' # xs"
      by (cases p) (auto simp: HasPrefix_def)
    have "\<not> HasPrefix xs ''/''"
      using assms(3) xs by (cases xs) (auto simp: HasPrefix_def)
    then show ?thesis using that [of xs] xs TrimPrefix_slash by simp
  next
    case False
    then show ?thesis using that TrimPrefix_none by blast
  qed
  have "joinURL base p = b' @ ''/'' @ p'"
    using assms(1) b(1) p(1) by (simp add: joinURL_def)
  then show ?thesis using b p by blast
qed

section \<open>Response middleware buffering\<close>




section \<open>Error classification\<close>

text \<open>
  C6. For every response whose body is readable, the Error Classifier returns a
  Structured Error carrying the response's status code and the raw body bytes; its
  message is the first non-empty of the decoded fields \<open>message\<close>, \<open>detail\<close>,
  \<open>error\<close>, in that order, when the body decodes and one of them is non-empty, and
  the raw body text otherwise.
\<close>

theorem handleErrorResponse_message:
  assumes "fst (ReadAll (Body resp)) = Inr body"
  shows "handleErrorResponse unmarshal resp =
           APIError (StatusCode resp)
             (case unmarshal body of
                Inr errResp \<Rightarrow>
                  (if er_Message errResp \<noteq> [] then er_Message errResp
                   else if er_Detail errResp \<noteq> [] then er_Detail errResp
                   else if er_Error errResp \<noteq> [] then er_Error errResp
                   else body)
              | Inl err \<Rightarrow> body)
             (Some body)"
  using assms by (simp add: handleErrorResponse_def Let_def split: sum.split)

text \<open>The three bodies of the specification's test.\<close>

theorem handleErrorResponse_message_witness:
  \<open>handleErrorResponse sampleDecoder
      \<lparr>StatusCode = 400, Body = NetBody ''{"error":"e","message":"m"}'' False None\<rparr>
     = APIError 400 ''m'' (Some ''{"error":"e","message":"m"}'')
   \<and> handleErrorResponse sampleDecoder
      \<lparr>StatusCode = 404, Body = NetBody ''{"error":"e"}'' False None\<rparr>
     = APIError 404 ''e'' (Some ''{"error":"e"}'')
   \<and> handleErrorResponse sampleDecoder
      \<lparr>StatusCode = 502, Body = NetBody ''Bad Gateway'' False None\<rparr>
     = APIError 502 ''Bad Gateway'' (Some ''Bad Gateway'')\<close>
  using handleErrorResponse_message
          [of \<open>\<lparr>StatusCode = 400, Body = NetBody ''{"error":"e","message":"m"}'' False None\<rparr>\<close>
              \<open>''{"error":"e","message":"m"}''\<close> sampleDecoder]
        handleErrorResponse_message
          [of \<open>\<lparr>StatusCode = 404, Body = NetBody ''{"error":"e"}'' False None\<rparr>\<close>
              \<open>''{"error":"e"}''\<close> sampleDecoder]
        handleErrorResponse_message
          [of \<open>\<lparr>StatusCode = 502, Body = NetBody ''Bad Gateway'' False None\<rparr>\<close>
              \<open>''Bad Gateway''\<close> sampleDecoder]
  by (simp add: sampleDecoder_def)

section \<open>Transport settings at client construction\<close>

text \<open>
  C8, amended. At client construction the transport's maximum idle connections per
  destination and its idle timeout default to 100 and 90 seconds whenever the
  configuration field is unset or zero, and keep the configured value otherwise.
  The maximum idle connections in total is the configured value in every case: it
  has no default, and unset or zero stays zero.
\<close>

theorem NewClient_transport_settings:
  "httpClient (NewClient (Some config) []) =
     HttpClient (Timeout config)
       \<lparr>tr_MaxIdleConns = MaxIdleConns config,
        tr_MaxIdleConnsPerHost =
          (if MaxIdleConnsPerHost config = 0 then 100 else MaxIdleConnsPerHost config),
        tr_IdleConnTimeout =
          (if IdleConnTimeout config = 0 then 90 * Second else IdleConnTimeout config)\<rparr>
   \<and> httpClient (NewClient None []) =
     HttpClient (30 * Second)
       \<lparr>tr_MaxIdleConns = 0, tr_MaxIdleConnsPerHost = 100, tr_IdleConnTimeout = 90 * Second\<rparr>"
  by (simp add: NewClient_def Let_def)

theorem NewClient_transport_settings_witness:
  "httpClient (NewClient (Some tunedConfig) []) =
     HttpClient 30000000000
       \<lparr>tr_MaxIdleConns = 10, tr_MaxIdleConnsPerHost = 5, tr_IdleConnTimeout = 60000000000\<rparr>"
  using NewClient_transport_settings [of tunedConfig]
  by (simp add: tunedConfig_def Second_def)

text \<open>
  A default of 100 for the total does not hold: with the three fields unset the
  transport's total stays 0.
\<close>

theorem NewClient_MaxIdleConns_counterexample:
  "MaxIdleConns bareConfig = 0
   \<and> httpClient (NewClient (Some bareConfig) []) =
     HttpClient 30000000000
       \<lparr>tr_MaxIdleConns = 0, tr_MaxIdleConnsPerHost = 100, tr_IdleConnTimeout = 90000000000\<rparr>"
  by (simp add: NewClient_def Let_def bareConfig_def Second_def)

end
